theory Spec2Isabelle
  imports Complex_Main "HOL-Library.Char_ord" "HOL-Library.List_Lexorder"
begin

section \<open>The persistence manager of the exam engine\<close>

text \<open>
  The class \<^verbatim>\<open>DatabaseManager\<close> wraps one connection to an embedded SQL store. It has a
  single mutable field, the nullable handle \<^verbatim>\<open>db\<close>, and talks to the outside world
  through three primitives of the store binding (\<^verbatim>\<open>open\<close>, \<^verbatim>\<open>execute\<close>,
  \<^verbatim>\<open>close\<close>) and through the clock (\<^verbatim>\<open>Date.now()\<close>).

  The store is not part of the repository (the tests replace it by a test double), so
  it is a parameter of the model: an environment that answers every call, knowing the
  calls made so far. Every call is appended to a trace; ``the manager issues no store
  operation'' means that the trace does not grow. The methods declared \<^verbatim>\<open>async\<close> await
  nothing but one another, so each call runs to its end before the next one starts.
  Strings are byte lists. Console output is advisory and is left out.
\<close>

subsection \<open>Values exchanged with the store\<close>

datatype jsval = Undefined | Str string | Num rat

type_synonym row = "(string \<times> jsval) list"

text \<open>Property access \<^verbatim>\<open>row.name\<close>: a missing property reads as \<^verbatim>\<open>undefined\<close>.\<close>

definition column :: "row \<Rightarrow> string \<Rightarrow> jsval" where
  "column r k = (case map_of r k of None \<Rightarrow> Undefined | Some v \<Rightarrow> v)"

text \<open>
  The \<^verbatim>\<open>rows\<close> member of a query result is either a plain array (what the test double
  returns) or the binding's result set, read through \<^verbatim>\<open>length\<close> and \<^verbatim>\<open>item(i)\<close>.
\<close>

datatype rows = RowArray "row list" | RowSet "row list"

fun rows_length :: "rows \<Rightarrow> nat" where
  "rows_length (RowArray rs) = length rs"
| "rows_length (RowSet rs) = length rs"

text \<open>
  What \<^verbatim>\<open>execute\<close> returns: \<^verbatim>\<open>undefined\<close> (a test double with no programmed answer) or
  a result object whose \<^verbatim>\<open>rows\<close> member is optional.
\<close>

datatype query_result = NoResult | QueryResult "rows option"

text \<open>A thrown JavaScript \<^verbatim>\<open>Error\<close>, with its message.\<close>

datatype error = Error string

datatype connection = Connection nat

datatype event =
    Open string
  | Execute connection string "jsval list option"
  | Close connection
  | DateNow

text \<open>
  The environment. Each of the three primitives of the store, \<^verbatim>\<open>open\<close>, \<^verbatim>\<open>execute\<close>
  and the release \<^verbatim>\<open>close\<close>, returns or throws, as the environment decides. The clock
  returns a time.
\<close>

record env =
  open_reply :: "event list \<Rightarrow> string \<Rightarrow> error + connection"
  execute_reply :: "event list \<Rightarrow> connection \<Rightarrow> string \<Rightarrow> jsval list option \<Rightarrow> error + query_result"
  close_reply :: "event list \<Rightarrow> connection \<Rightarrow> error + unit"
  now_reply :: "event list \<Rightarrow> int"

text \<open>The manager's field \<^verbatim>\<open>db\<close>, and the trace of the calls made so far.\<close>

record state =
  db :: "connection option"
  trace :: "event list"

definition open_store :: "env \<Rightarrow> string \<Rightarrow> state \<Rightarrow> (error + connection) \<times> state" where
  "open_store E name s = (open_reply E (trace s) name, s\<lparr>trace := trace s @ [Open name]\<rparr>)"

definition execute ::
  "env \<Rightarrow> connection \<Rightarrow> string \<Rightarrow> jsval list option \<Rightarrow> state \<Rightarrow> (error + query_result) \<times> state" where
  "execute E c sql params s =
     (execute_reply E (trace s) c sql params, s\<lparr>trace := trace s @ [Execute c sql params]\<rparr>)"

definition close_store :: "env \<Rightarrow> connection \<Rightarrow> state \<Rightarrow> (error + unit) \<times> state" where
  "close_store E c s = (close_reply E (trace s) c, s\<lparr>trace := trace s @ [Close c]\<rparr>)"

definition date_now :: "env \<Rightarrow> state \<Rightarrow> int \<times> state" where
  "date_now E s = (now_reply E (trace s), s\<lparr>trace := trace s @ [DateNow]\<rparr>)"

text \<open>The test \<^verbatim>\<open>result && result.rows && result.rows.length > 0\<close>.\<close>

fun has_rows :: "query_result \<Rightarrow> bool" where
  "has_rows NoResult = False"
| "has_rows (QueryResult None) = False"
| "has_rows (QueryResult (Some rs)) = (0 < rows_length rs)"

subsection \<open>The fragment of JSON the fixtures use\<close>

text \<open>
  \<^verbatim>\<open>loadFixtures\<close> serialises two literals with \<^verbatim>\<open>JSON.stringify\<close>; its test reads one
  back with \<^verbatim>\<open>JSON.parse\<close>. Both are platform functions. They are modelled on the
  values the fixtures are made of: null, booleans, strings, arrays and objects (an
  object is the list of its members in enumeration order; numbers and integer-like
  keys, which the platform enumerates first, do not occur).
\<close>

datatype json =
    JNull
  | JBool bool
  | JStr string
  | JArr "json list"
  | JObj "(string \<times> json) list"

definition dquote :: char where "dquote = CHR 0x22"
definition backslash :: char where "backslash = CHR 0x5C"

definition hex_digit :: "nat \<Rightarrow> char" where
  "hex_digit n = ''0123456789abcdef'' ! (n mod 16)"

text \<open>The escapes of \<^verbatim>\<open>QuoteJSONString\<close>.\<close>

definition quote_char :: "char \<Rightarrow> string" where
  "quote_char c =
     (if c = CHR 0x08 then [backslash, CHR ''b'']
      else if c = CHR 0x09 then [backslash, CHR ''t'']
      else if c = CHR 0x0A then [backslash, CHR ''n'']
      else if c = CHR 0x0C then [backslash, CHR ''f'']
      else if c = CHR 0x0D then [backslash, CHR ''r'']
      else if c = dquote then [backslash, dquote]
      else if c = backslash then [backslash, backslash]
      else if (of_char c :: nat) < 32
        then [backslash, CHR ''u'', CHR ''0'', CHR ''0'',
              hex_digit (of_char c div 16), hex_digit (of_char c)]
      else [c])"

definition quote :: "string \<Rightarrow> string" where
  "quote s = [dquote] @ concat (map quote_char s) @ [dquote]"

fun join :: "string list \<Rightarrow> string" where
  "join [] = []"
| "join [x] = x"
| "join (x # y # ys) = x @ '','' @ join (y # ys)"

fun stringify :: "json \<Rightarrow> string" where
  "stringify JNull = ''null''"
| "stringify (JBool b) = (if b then ''true'' else ''false'')"
| "stringify (JStr s) = quote s"
| "stringify (JArr vs) = ''['' @ join (map stringify vs) @ '']''"
| "stringify (JObj kvs) =
     ''{'' @ join (map (\<lambda>kv. quote (fst kv) @ '':'' @ stringify (snd kv)) kvs) @ ''}''"

fun skip_ws :: "string \<Rightarrow> string" where
  "skip_ws [] = []"
| "skip_ws (c # cs) =
     (if c = CHR '' '' \<or> c = CHR 0x09 \<or> c = CHR 0x0A \<or> c = CHR 0x0D
      then skip_ws cs else c # cs)"

definition hex_val :: "char \<Rightarrow> nat option" where
  "hex_val c =
     (let n = (of_char c :: nat) in
      if 48 \<le> n \<and> n \<le> 57 then Some (n - 48)
      else if 97 \<le> n \<and> n \<le> 102 then Some (n - 87)
      else if 65 \<le> n \<and> n \<le> 70 then Some (n - 55)
      else None)"

text \<open>
  The bytes of an escaped code unit \<^verbatim>\<open>\uXXXX\<close>. An escaped surrogate has no byte
  form and is rejected.
\<close>

definition utf8 :: "nat \<Rightarrow> string option" where
  "utf8 n =
     (if n < 128 then Some [char_of n]
      else if n < 2048 then Some [char_of (192 + n div 64), char_of (128 + n mod 64)]
      else if 55296 \<le> n \<and> n < 57344 then None
      else Some [char_of (224 + n div 4096), char_of (128 + (n div 64) mod 64),
                 char_of (128 + n mod 64)])"

definition unescape_u :: "char \<Rightarrow> char \<Rightarrow> char \<Rightarrow> char \<Rightarrow> string option" where
  "unescape_u a b c d =
     (case (hex_val a, hex_val b, hex_val c, hex_val d) of
        (Some w, Some x, Some y, Some z) \<Rightarrow> utf8 (4096 * w + 256 * x + 16 * y + z)
      | _ \<Rightarrow> None)"

definition unescape :: "char \<Rightarrow> char option" where
  "unescape e =
     (if e = dquote then Some dquote
      else if e = backslash then Some backslash
      else if e = CHR ''/'' then Some CHR ''/''
      else if e = CHR ''b'' then Some (CHR 0x08)
      else if e = CHR ''f'' then Some (CHR 0x0C)
      else if e = CHR ''n'' then Some (CHR 0x0A)
      else if e = CHR ''r'' then Some (CHR 0x0D)
      else if e = CHR ''t'' then Some (CHR 0x09)
      else None)"

text \<open>The characters of a string, after its opening quote, up to the closing one.\<close>

fun parse_chars :: "string \<Rightarrow> string \<Rightarrow> (string \<times> string) option" where
  "parse_chars acc [] = None"
| "parse_chars acc (c # cs) =
     (if c = dquote then Some (acc, cs)
      else if c = backslash then
        (case cs of
           [] \<Rightarrow> None
         | e # es \<Rightarrow>
             if e = CHR ''u'' then
               (case es of
                  h1 # h2 # h3 # h4 # rest \<Rightarrow>
                    (case unescape_u h1 h2 h3 h4 of
                       None \<Rightarrow> None
                     | Some bs \<Rightarrow> parse_chars (acc @ bs) rest)
                | _ \<Rightarrow> None)
             else
               (case unescape e of
                  None \<Rightarrow> None
                | Some x \<Rightarrow> parse_chars (acc @ [x]) es))
      else if (of_char c :: nat) < 32 then None
      else parse_chars (acc @ [c]) cs)"

text \<open>Defining a member twice keeps its first position and its last value.\<close>

definition put_member :: "(string \<times> json) list \<Rightarrow> string \<Rightarrow> json \<Rightarrow> (string \<times> json) list" where
  "put_member kvs k v =
     (if k \<in> fst ` set kvs then map (\<lambda>kv. if fst kv = k then (k, v) else kv) kvs
      else kvs @ [(k, v)])"

text \<open>
  Recursive descent. The first argument bounds the depth of the recursion; every call
  consumes input, so the length of the text is enough (see \<open>parse\<close>). A value is read
  at the head of the text, with the white space before it already skipped.
\<close>

fun parse_value :: "nat \<Rightarrow> string \<Rightarrow> (json \<times> string) option"
  and parse_elements :: "nat \<Rightarrow> json list \<Rightarrow> string \<Rightarrow> (json \<times> string) option"
  and parse_members :: "nat \<Rightarrow> (string \<times> json) list \<Rightarrow> string \<Rightarrow> (json \<times> string) option"
where
  "parse_value 0 s = None"
| "parse_value (Suc n) s =
     (case s of
        [] \<Rightarrow> None
      | c # cs \<Rightarrow>
          if c = dquote then
            (case parse_chars [] cs of
               None \<Rightarrow> None
             | Some (str, rest) \<Rightarrow> Some (JStr str, rest))
          else if c = CHR ''['' then
            (case skip_ws cs of
               [] \<Rightarrow> None
             | d # ds \<Rightarrow> if d = CHR '']'' then Some (JArr [], ds) else parse_elements n [] (d # ds))
          else if c = CHR ''{'' then
            (case skip_ws cs of
               [] \<Rightarrow> None
             | d # ds \<Rightarrow> if d = CHR ''}'' then Some (JObj [], ds) else parse_members n [] (d # ds))
          else if take 4 s = ''true'' then Some (JBool True, drop 4 s)
          else if take 5 s = ''false'' then Some (JBool False, drop 5 s)
          else if take 4 s = ''null'' then Some (JNull, drop 4 s)
          else None)"
| "parse_elements 0 acc s = None"
| "parse_elements (Suc n) acc s =
     (case parse_value n s of
        None \<Rightarrow> None
      | Some (v, rest) \<Rightarrow>
          (case skip_ws rest of
             [] \<Rightarrow> None
           | d # ds \<Rightarrow>
               if d = CHR '','' then parse_elements n (acc @ [v]) (skip_ws ds)
               else if d = CHR '']'' then Some (JArr (acc @ [v]), ds)
               else None))"
| "parse_members 0 acc s = None"
| "parse_members (Suc n) acc s =
     (case s of
        [] \<Rightarrow> None
      | q # qs \<Rightarrow>
          if q \<noteq> dquote then None
          else
            (case parse_chars [] qs of
               None \<Rightarrow> None
             | Some (k, rest) \<Rightarrow>
                 (case skip_ws rest of
                    [] \<Rightarrow> None
                  | colon # after \<Rightarrow>
                      if colon \<noteq> CHR '':'' then None
                      else
                        (case parse_value n (skip_ws after) of
                           None \<Rightarrow> None
                         | Some (v, rest') \<Rightarrow>
                             (case skip_ws rest' of
                                [] \<Rightarrow> None
                              | d # ds \<Rightarrow>
                                  if d = CHR '','' then parse_members n (put_member acc k v) (skip_ws ds)
                                  else if d = CHR ''}'' then Some (JObj (put_member acc k v), ds)
                                  else None)))))"

text \<open>\<^verbatim>\<open>JSON.parse\<close>: \<open>None\<close> stands for the \<^verbatim>\<open>SyntaxError\<close>.\<close>

definition parse :: "string \<Rightarrow> json option" where
  "parse s =
     (case parse_value (Suc (length s)) (skip_ws s) of
        None \<Rightarrow> None
      | Some (v, rest) \<Rightarrow> if skip_ws rest = [] then Some v else None)"

subsection \<open>The statements sent to the store\<close>

text \<open>
  The template literals of the source, byte for byte (line breaks and indentation
  included).
\<close>

text \<open>The statement that creates the tracking table (\<^verbatim>\<open>runMigrations\<close>).\<close>

definition createMigrationsSql :: string where
  "createMigrationsSql =
     ''
      CREATE TABLE IF NOT EXISTS migrations (
        id INTEGER PRIMARY KEY,
        version TEXT NOT NULL UNIQUE,
        applied_at INTEGER NOT NULL
      )
    ''"

text \<open>
  The initial migration is one template literal, passed to the store as one text. It is
  cut here after each blank line; \<open>getMigration001\<close> puts the pieces together again.
\<close>

definition examsSql :: string where
  "examsSql =
     ''
      -- Exam configuration and metadata
      CREATE TABLE IF NOT EXISTS exams (
        id TEXT PRIMARY KEY,              -- 'cbap', 'pmp', 'az104'
        name TEXT NOT NULL,               -- 'CBAP Certification'
        code TEXT NOT NULL,               -- 'CBAP'
        provider TEXT,                    -- 'IIBA'
        version TEXT NOT NULL,            -- '2025.08.28'
        total_questions INTEGER NOT NULL, -- 150 for exam, 1200 in database
        time_limit_minutes INTEGER,       -- 210
        passing_score REAL,               -- 0.70
        blueprint_version TEXT,           -- 'v4.0'
        created_at INTEGER NOT NULL,
        updated_at INTEGER NOT NULL
      );

''"

definition topicsSql :: string where
  "topicsSql =
     ''      -- Topic/domain taxonomy per exam
      CREATE TABLE IF NOT EXISTS topics (
        id TEXT PRIMARY KEY,              -- 'cbap_planning'
        exam_id TEXT NOT NULL,            -- 'cbap'
        name TEXT NOT NULL,               -- 'Business Analysis Planning'
        short_name TEXT,                  -- 'Planning'
        description TEXT,
        parent_id TEXT,                   -- For subtopics
        weight REAL,                      -- 0.16 (16% of exam)
        icon TEXT,                        -- '' @
     [CHR 0x27, CHR 0xC3, CHR 0xB0, CHR 0xC5, CHR 0xB8, CHR 0xC5, CHR 0xBD, CHR 0xC2, CHR 0xAF, CHR 0x27] @
     ''
        color TEXT,                       -- '#2B5CE6'
        order_index INTEGER DEFAULT 0,
        FOREIGN KEY (exam_id) REFERENCES exams(id),
        FOREIGN KEY (parent_id) REFERENCES topics(id)
      );

''"

definition questionsSql :: string where
  "questionsSql =
     ''      -- Enhanced questions table with flexible content
      CREATE TABLE IF NOT EXISTS questions (
        id TEXT PRIMARY KEY,              -- UUID
        exam_id TEXT NOT NULL,            -- 'cbap'
        topic_id TEXT NOT NULL,           -- 'cbap_planning'
        question_type TEXT NOT NULL,      -- 'single', 'multi', 'match', etc.
        difficulty TEXT NOT NULL,         -- 'easy', 'medium', 'hard'
        content_json TEXT NOT NULL,       -- Flexible question content
        explanation TEXT,                 -- Answer explanation
        rationale TEXT,                   -- Why other answers are wrong
        reference TEXT,                   -- BABOK section reference
        tags TEXT,                        -- JSON array of tags
        created_at INTEGER NOT NULL,
        updated_at INTEGER NOT NULL,
        FOREIGN KEY (exam_id) REFERENCES exams(id),
        FOREIGN KEY (topic_id) REFERENCES topics(id)
      );

''"

definition exhibitsSql :: string where
  "exhibitsSql =
     ''      -- Question exhibits and media assets
      CREATE TABLE IF NOT EXISTS exhibits (
        id TEXT PRIMARY KEY,              -- UUID
        exam_id TEXT NOT NULL,            -- 'cbap'
        filename TEXT NOT NULL,           -- 'process_diagram.png'
        uri TEXT NOT NULL,                -- 'assets/exhibits/process_diagram.png'
        content_type TEXT NOT NULL,       -- 'image/png'
        file_size INTEGER,                -- bytes
        width INTEGER,                    -- pixels
        height INTEGER,                   -- pixels
        description TEXT,                 -- Alt text for accessibility
        created_at INTEGER NOT NULL,
        FOREIGN KEY (exam_id) REFERENCES exams(id)
      );

''"

definition questionExhibitsSql :: string where
  "questionExhibitsSql =
     ''      -- Many-to-many relationship between questions and exhibits
      CREATE TABLE IF NOT EXISTS question_exhibits (
        question_id TEXT NOT NULL,
        exhibit_id TEXT NOT NULL,
        order_index INTEGER DEFAULT 0,
        PRIMARY KEY (question_id, exhibit_id),
        FOREIGN KEY (question_id) REFERENCES questions(id) ON DELETE CASCADE,
        FOREIGN KEY (exhibit_id) REFERENCES exhibits(id) ON DELETE CASCADE
      );

''"

definition attemptsSql :: string where
  "attemptsSql =
     ''      -- User practice attempts and sessions
      CREATE TABLE IF NOT EXISTS attempts (
        id TEXT PRIMARY KEY,              -- UUID
        exam_id TEXT NOT NULL,            -- 'cbap'
        session_type TEXT NOT NULL,       -- 'adaptive', 'quick', 'full_exam'
        started_at INTEGER NOT NULL,
        completed_at INTEGER,
        total_questions INTEGER NOT NULL,
        correct_answers INTEGER DEFAULT 0,
        score REAL DEFAULT 0.0,           -- 0.0 to 1.0
        time_limit_seconds INTEGER,
        time_spent_seconds INTEGER,
        is_completed BOOLEAN DEFAULT FALSE,
        device_id TEXT NOT NULL,          -- Pseudonymous device identifier
        FOREIGN KEY (exam_id) REFERENCES exams(id)
      );

''"

definition attemptItemsSql :: string where
  "attemptItemsSql =
     ''      -- Individual question responses within attempts
      CREATE TABLE IF NOT EXISTS attempt_items (
        attempt_id TEXT NOT NULL,
        question_id TEXT NOT NULL,
        given_answers TEXT NOT NULL,      -- JSON array of selected choice IDs
        is_correct BOOLEAN NOT NULL,
        partial_score REAL DEFAULT 0.0,   -- For partial credit questions
        time_spent_seconds INTEGER NOT NULL,
        flagged BOOLEAN DEFAULT FALSE,
        reviewed BOOLEAN DEFAULT FALSE,
        answered_at INTEGER NOT NULL,
        PRIMARY KEY (attempt_id, question_id),
        FOREIGN KEY (attempt_id) REFERENCES attempts(id) ON DELETE CASCADE,
        FOREIGN KEY (question_id) REFERENCES questions(id)
      );

''"

definition progressSql :: string where
  "progressSql =
     ''      -- Aggregated progress tracking by topic
      CREATE TABLE IF NOT EXISTS progress (
        exam_id TEXT NOT NULL,
        topic_id TEXT NOT NULL,
        questions_attempted INTEGER DEFAULT 0,
        questions_correct INTEGER DEFAULT 0,
        accuracy REAL DEFAULT 0.0,
        proficiency_score REAL DEFAULT 0.5,  -- EWMA-based proficiency (0.0-1.0)
        last_practiced_at INTEGER,
        practice_streak INTEGER DEFAULT 0,
        total_time_spent INTEGER DEFAULT 0,   -- seconds
        updated_at INTEGER NOT NULL,
        PRIMARY KEY (exam_id, topic_id),
        FOREIGN KEY (exam_id) REFERENCES exams(id),
        FOREIGN KEY (topic_id) REFERENCES topics(id)
      );

''"

definition userPreferencesSql :: string where
  "userPreferencesSql =
     ''      -- User preferences and settings
      CREATE TABLE IF NOT EXISTS user_preferences (
        key TEXT PRIMARY KEY,
        value TEXT NOT NULL,
        updated_at INTEGER NOT NULL
      );

''"

definition contentPacksSql :: string where
  "contentPacksSql =
     ''      -- Content pack metadata and versioning
      CREATE TABLE IF NOT EXISTS content_packs (
        exam_id TEXT NOT NULL,
        version TEXT NOT NULL,
        sha256_hash TEXT NOT NULL,
        installed_at INTEGER NOT NULL,
        file_size INTEGER NOT NULL,
        question_count INTEGER NOT NULL,
        exhibit_count INTEGER NOT NULL,
        status TEXT DEFAULT 'active',     -- 'active', 'updating', 'archived'
        PRIMARY KEY (exam_id, version),
        FOREIGN KEY (exam_id) REFERENCES exams(id)
      );

''"

definition indexesSql :: string where
  "indexesSql =
     ''      -- Indexes for performance optimization
      CREATE INDEX IF NOT EXISTS idx_questions_exam_topic ON questions(exam_id, topic_id);
      CREATE INDEX IF NOT EXISTS idx_questions_difficulty ON questions(difficulty);
      CREATE INDEX IF NOT EXISTS idx_questions_type ON questions(question_type);
      CREATE INDEX IF NOT EXISTS idx_attempts_exam_completed ON attempts(exam_id, is_completed);
      CREATE INDEX IF NOT EXISTS idx_attempt_items_question ON attempt_items(question_id);
      CREATE INDEX IF NOT EXISTS idx_progress_exam_accuracy ON progress(exam_id, accuracy);
      CREATE INDEX IF NOT EXISTS idx_progress_last_practiced ON progress(last_practiced_at);
    ''"

definition getMigration001 :: string where
  "getMigration001 =
     examsSql @ topicsSql @ questionsSql @ exhibitsSql @ questionExhibitsSql @ attemptsSql @
     attemptItemsSql @ progressSql @ userPreferencesSql @ contentPacksSql @ indexesSql"

text \<open>The four statements of \<^verbatim>\<open>loadFixtures\<close>.\<close>

definition insertExamSql :: string where
  "insertExamSql =
     ''
        INSERT OR REPLACE INTO exams 
        (id, name, code, provider, version, total_questions, time_limit_minutes, passing_score, blueprint_version, created_at, updated_at) 
        VALUES (?, ?, ?, ?, ?, ?, ?, ?, ?, ?, ?)
      ''"

definition insertTopicSql :: string where
  "insertTopicSql =
     ''
        INSERT OR REPLACE INTO topics 
        (id, exam_id, name, short_name, description, weight, icon, color, order_index) 
        VALUES (?, ?, ?, ?, ?, ?, ?, ?, ?)
      ''"

definition insertQuestionSql :: string where
  "insertQuestionSql =
     ''
        INSERT OR REPLACE INTO questions 
        (id, exam_id, topic_id, question_type, difficulty, content_json, explanation, reference, tags, created_at, updated_at) 
        VALUES (?, ?, ?, ?, ?, ?, ?, ?, ?, ?, ?)
      ''"

definition insertContentPackSql :: string where
  "insertContentPackSql =
     ''
        INSERT OR REPLACE INTO content_packs 
        (exam_id, version, sha256_hash, installed_at, file_size, question_count, exhibit_count, status) 
        VALUES (?, ?, ?, ?, ?, ?, ?, ?)
      ''"

subsection \<open>The manager\<close>

definition dbName :: string where
  "dbName = ''exam_engine.db''"

definition not_available :: error where
  "not_available = Error ''Database connection not available''"

text \<open>\<^verbatim>\<open>getConnection\<close> reads the handle and nothing else.\<close>

definition getConnection :: "state \<Rightarrow> (error + connection) \<times> state" where
  "getConnection s =
     (case db s of
        None \<Rightarrow> (Inl (Error ''Database not initialized. Call initialize() first.''), s)
      | Some c \<Rightarrow> (Inr c, s))"

text \<open>
  \<^verbatim>\<open>close\<close>. The assignment \<^verbatim>\<open>this.db = null\<close> follows the release: when the release
  throws, the method throws with it and the assignment is not reached.
\<close>

definition close :: "env \<Rightarrow> state \<Rightarrow> (error + unit) \<times> state" where
  "close E s =
     (case db s of
        None \<Rightarrow> (Inr (), s)
      | Some c \<Rightarrow>
          (case close_store E c s of
             (Inl e, s1) \<Rightarrow> (Inl e, s1)
           | (Inr _, s1) \<Rightarrow> (Inr (), s1\<lparr>db := None\<rparr>)))"

text \<open>
  \<^verbatim>\<open>runMigration\<close>. The handler around the batch and the insertion logs and throws
  the same error again.
\<close>

definition selectVersionSql :: string where
  "selectVersionSql = ''SELECT version FROM migrations WHERE version = ?''"

definition insertVersionSql :: string where
  "insertVersionSql = ''INSERT INTO migrations (version, applied_at) VALUES (?, ?)''"

definition runMigration :: "env \<Rightarrow> string \<Rightarrow> string \<Rightarrow> state \<Rightarrow> (error + unit) \<times> state" where
  "runMigration E version migration s =
     (case db s of
        None \<Rightarrow> (Inl not_available, s)
      | Some c \<Rightarrow>
          (case execute E c selectVersionSql (Some [Str version]) s of
             (Inl e, s1) \<Rightarrow> (Inl e, s1)
           | (Inr result, s1) \<Rightarrow>
               if has_rows result then (Inr (), s1)
               else
                 (case execute E c migration None s1 of
                    (Inl e, s2) \<Rightarrow> (Inl e, s2)
                  | (Inr _, s2) \<Rightarrow>
                      (case date_now E s2 of
                         (now, s3) \<Rightarrow>
                           (case execute E c insertVersionSql
                                   (Some [Str version, Num (of_int now)]) s3 of
                              (Inl e, s4) \<Rightarrow> (Inl e, s4)
                            | (Inr _, s4) \<Rightarrow> (Inr (), s4))))))"

definition migrations :: "(string \<times> string) list" where
  "migrations = [(''001_initial'', getMigration001)]"

text \<open>The loop of \<^verbatim>\<open>runMigrations\<close>: it stops at the first migration that throws.\<close>

fun run_each :: "env \<Rightarrow> (string \<times> string) list \<Rightarrow> state \<Rightarrow> (error + unit) \<times> state" where
  "run_each E [] s = (Inr (), s)"
| "run_each E ((version, migration) # rest) s =
     (case runMigration E version migration s of
        (Inl e, s1) \<Rightarrow> (Inl e, s1)
      | (Inr _, s1) \<Rightarrow> run_each E rest s1)"

definition runMigrations :: "env \<Rightarrow> state \<Rightarrow> (error + unit) \<times> state" where
  "runMigrations E s =
     (case db s of
        None \<Rightarrow> (Inl not_available, s)
      | Some c \<Rightarrow>
          (case execute E c createMigrationsSql None s of
             (Inl e, s1) \<Rightarrow> (Inl e, s1)
           | (Inr _, s1) \<Rightarrow> run_each E migrations s1))"

text \<open>
  \<^verbatim>\<open>initialize\<close>. The assignment \<^verbatim>\<open>this.db = open(...)\<close> happens only when
  \<^verbatim>\<open>open\<close> returns; the handler logs and throws the same error again, and does not
  touch the handle.
\<close>

definition initialize :: "env \<Rightarrow> state \<Rightarrow> (error + unit) \<times> state" where
  "initialize E s =
     (case db s of
        Some c \<Rightarrow> (Inr (), s)
      | None \<Rightarrow>
          (case open_store E dbName s of
             (Inl e, s1) \<Rightarrow> (Inl e, s1)
           | (Inr c, s1) \<Rightarrow>
               (case execute E c ''PRAGMA foreign_keys = ON'' None (s1\<lparr>db := Some c\<rparr>) of
                  (Inl e, s2) \<Rightarrow> (Inl e, s2)
                | (Inr _, s2) \<Rightarrow> runMigrations E s2)))"

text \<open>The fixture question's content, and the tags, as \<^verbatim>\<open>loadFixtures\<close> writes them.\<close>

definition choice :: "string \<Rightarrow> string \<Rightarrow> bool \<Rightarrow> json" where
  "choice i t c = JObj [(''id'', JStr i), (''text'', JStr t), (''isCorrect'', JBool c)]"

definition questionContentValue :: json where
  "questionContentValue =
     JObj [
       (''stem'', JStr ''Which activity is part of Business Analysis Planning?''),
       (''choices'', JArr [
          choice ''A'' ''Define stakeholder roles and responsibilities'' True,
          choice ''B'' ''Elicit requirements from stakeholders'' False,
          choice ''C'' ''Test the final solution'' False,
          choice ''D'' ''Implement approved changes'' False]),
       (''correct'', JArr [JStr ''A'']),
       (''shuffleChoices'', JBool True)]"

definition questionContent :: string where
  "questionContent = stringify questionContentValue"

definition tagsContent :: string where
  "tagsContent = stringify (JArr [JStr ''planning'', JStr ''stakeholder'', JStr ''roles''])"

definition examParams :: "int \<Rightarrow> jsval list" where
  "examParams now =
     [Str ''cbap'',
      Str ''Certified Business Analysis Professional'',
      Str ''CBAP'',
      Str ''IIBA'',
      Str ''2025.01.01'',
      Num 150,
      Num 210,
      Num 0.70,
      Str ''v4.0'',
      Num (of_int now),
      Num (of_int now)]"

definition topicParams :: "jsval list" where
  "topicParams =
     [Str ''cbap_planning'',
      Str ''cbap'',
      Str ''Business Analysis Planning'',
      Str ''Planning'',
      Str ''Planning and monitoring of business analysis activities'',
      Num 0.16,
      Str [CHR 0xC3, CHR 0xB0, CHR 0xC5, CHR 0xB8, CHR 0xC5, CHR 0xBD, CHR 0xC2, CHR 0xAF],
      Str ''#2B5CE6'',
      Num 1]"

definition questionParams :: "int \<Rightarrow> jsval list" where
  "questionParams now =
     [Str ''q_cbap_planning_001'',
      Str ''cbap'',
      Str ''cbap_planning'',
      Str ''single'',
      Str ''medium'',
      Str questionContent,
      Str ''Business Analysis Planning involves defining how BA activities will be conducted, including stakeholder roles and responsibilities.'',
      Str ''BABOK 3.1.2'',
      Str tagsContent,
      Num (of_int now),
      Num (of_int now)]"

definition contentPackParams :: "int \<Rightarrow> jsval list" where
  "contentPackParams now =
     [Str ''cbap'',
      Str ''2025.01.01'',
      Str ''test_hash_123'',
      Num (of_int now),
      Num 1024,
      Num 1,
      Num 0,
      Str ''active'']"

text \<open>\<^verbatim>\<open>loadFixtures\<close>: the clock is read once, after the check of the handle.\<close>

definition loadFixtures :: "env \<Rightarrow> state \<Rightarrow> (error + unit) \<times> state" where
  "loadFixtures E s =
     (case db s of
        None \<Rightarrow> (Inl not_available, s)
      | Some c \<Rightarrow>
          (case date_now E s of
             (now, s0) \<Rightarrow>
               (case execute E c insertExamSql (Some (examParams now)) s0 of
                  (Inl e, s1) \<Rightarrow> (Inl e, s1)
                | (Inr _, s1) \<Rightarrow>
                    (case execute E c insertTopicSql (Some topicParams) s1 of
                       (Inl e, s2) \<Rightarrow> (Inl e, s2)
                     | (Inr _, s2) \<Rightarrow>
                         (case execute E c insertQuestionSql (Some (questionParams now)) s2 of
                            (Inl e, s3) \<Rightarrow> (Inl e, s3)
                          | (Inr _, s3) \<Rightarrow>
                              (case execute E c insertContentPackSql
                                      (Some (contentPackParams now)) s3 of
                                 (Inl e, s4) \<Rightarrow> (Inl e, s4)
                               | (Inr _, s4) \<Rightarrow> (Inr (), s4)))))))"

definition tableExistsSql :: string where
  "tableExistsSql = ''SELECT name FROM sqlite_master WHERE type='table' AND name=?''"

definition tableExists :: "env \<Rightarrow> string \<Rightarrow> state \<Rightarrow> (error + bool) \<times> state" where
  "tableExists E tableName s =
     (case db s of
        None \<Rightarrow> (Inl not_available, s)
      | Some c \<Rightarrow>
          (case execute E c tableExistsSql (Some [Str tableName]) s of
             (Inl e, s1) \<Rightarrow> (Inl e, s1)
           | (Inr result, s1) \<Rightarrow> (Inr (has_rows result), s1)))"

definition allTablesSql :: string where
  "allTablesSql =
     ''SELECT name FROM sqlite_master WHERE type='table' AND name NOT LIKE 'sqlite_%' ORDER BY name''"

text \<open>
  The loop of \<^verbatim>\<open>getAllTables\<close> over a result set: \<^verbatim>\<open>item(i)\<close> for
  \<^verbatim>\<open>i = 0, ..., length - 1\<close>, each name pushed onto \<^verbatim>\<open>tables\<close>.
\<close>

function collect_names :: "row list \<Rightarrow> nat \<Rightarrow> jsval list \<Rightarrow> jsval list" where
  "collect_names rs i tables =
     (if i < length rs then collect_names rs (i + 1) (tables @ [column (rs ! i) ''name''])
      else tables)"
  by pat_completeness auto
termination
  by (relation "measure (\<lambda>(rs, i, tables). length rs - i)") auto

declare collect_names.simps [simp del]

definition getAllTables :: "env \<Rightarrow> state \<Rightarrow> (error + jsval list) \<times> state" where
  "getAllTables E s =
     (case db s of
        None \<Rightarrow> (Inl not_available, s)
      | Some c \<Rightarrow>
          (case execute E c allTablesSql None s of
             (Inl e, s1) \<Rightarrow> (Inl e, s1)
           | (Inr NoResult, s1) \<Rightarrow> (Inr [], s1)
           | (Inr (QueryResult None), s1) \<Rightarrow> (Inr [], s1)
           | (Inr (QueryResult (Some (RowArray rs))), s1) \<Rightarrow>
               (Inr (map (\<lambda>row. column row ''name'') rs), s1)
           | (Inr (QueryResult (Some (RowSet rs))), s1) \<Rightarrow>
               (Inr (collect_names rs 0 []), s1)))"

text \<open>\<open>n\<close> calls of \<^verbatim>\<open>close\<close> in a row, with what each call returned.\<close>

fun close_calls :: "env \<Rightarrow> nat \<Rightarrow> state \<Rightarrow> (error + unit) list \<times> state" where
  "close_calls E 0 s = ([], s)"
| "close_calls E (Suc n) s =
     (case close E s of
        (r, s1) \<Rightarrow> (case close_calls E n s1 of (rs, s2) \<Rightarrow> (r # rs, s2)))"

subsection \<open>The store's answer to the catalogue query\<close>

text \<open>
  \<^verbatim>\<open>getAllTables\<close> leaves selection and order to the store: what it returns is decided
  by the text of its query, read by the engine. The part of the engine that this query
  uses is modelled here. The catalogue \<^verbatim>\<open>sqlite_master\<close> is a list of entries, each with
  a type (\<^verbatim>\<open>table\<close>, \<^verbatim>\<open>index\<close>, ...) and a name.
\<close>

type_synonym catalogue = "(string \<times> string) list"

text \<open>Letters of a pattern match in either case (ASCII only).\<close>

definition lower :: "char \<Rightarrow> char" where
  "lower c =
     (if 65 \<le> (of_char c :: nat) \<and> (of_char c :: nat) \<le> 90
      then char_of ((of_char c :: nat) + 32) else c)"

text \<open>
  The operator \<^verbatim>\<open>LIKE\<close>, pattern first: \<^verbatim>\<open>%\<close> stands for any text, also the empty
  one, \<^verbatim>\<open>_\<close> for any one character, and any other character for itself.
\<close>

fun like :: "string \<Rightarrow> string \<Rightarrow> bool" where
  "like [] s = (s = [])"
| "like (p # ps) [] = (p = CHR ''%'' \<and> like ps [])"
| "like (p # ps) (c # cs) =
     (if p = CHR ''%'' then like ps (c # cs) \<or> like (p # ps) cs
      else (p = CHR ''_'' \<or> lower p = lower c) \<and> like ps cs)"

text \<open>
  The names selected by \<^verbatim>\<open>WHERE type='table' AND name NOT LIKE 'sqlite_%'\<close>, in the
  order of \<^verbatim>\<open>ORDER BY name\<close> (the catalogue compares names byte by byte).
\<close>

definition table_names :: "catalogue \<Rightarrow> string list" where
  "table_names cat =
     sort (map snd (filter (\<lambda>e. fst e = ''table'' \<and> \<not> like ''sqlite_%'' (snd e)) cat))"

definition catalogue_answer :: "catalogue \<Rightarrow> query_result" where
  "catalogue_answer cat =
     QueryResult (Some (RowSet (map (\<lambda>n. [(''name'', Str n)]) (table_names cat))))"

text \<open>The names the engine keeps for itself start with \<^verbatim>\<open>sqlite_\<close>.\<close>

definition system_name :: "string \<Rightarrow> bool" where
  "system_name n = (take 7 n = ''sqlite_'')"

subsection \<open>Test doubles and sample states\<close>

text \<open>A manager whose \<^verbatim>\<open>initialize\<close> was never called.\<close>

definition fresh :: state where
  "fresh = \<lparr>db = None, trace = []\<rparr>"

definition no_rows :: query_result where
  "no_rows = QueryResult (Some (RowArray []))"

text \<open>The double of the repository's tests: every statement answers \<^verbatim>\<open>{rows: []}\<close>.\<close>

definition double_env :: env where
  "double_env =
     \<lparr>open_reply = (\<lambda>h name. Inr (Connection 0)),
      execute_reply = (\<lambda>h c sql params. Inr no_rows),
      close_reply = (\<lambda>h c. Inr ()),
      now_reply = (\<lambda>h. 1700000000000)\<rparr>"

text \<open>A store in which the version check finds a row: the migration was applied before.\<close>

definition applied_env :: env where
  "applied_env =
     \<lparr>open_reply = (\<lambda>h name. Inr (Connection 0)),
      execute_reply = (\<lambda>h c sql params.
        if sql = selectVersionSql
        then Inr (QueryResult (Some (RowArray [[(''version'', Str ''001_initial'')]])))
        else Inr no_rows),
      close_reply = (\<lambda>h c. Inr ()),
      now_reply = (\<lambda>h. 1700000000000)\<rparr>"

text \<open>A store that opens and then fails every statement.\<close>

definition failing_env :: env where
  "failing_env =
     \<lparr>open_reply = (\<lambda>h name. Inr (Connection 0)),
      execute_reply = (\<lambda>h c sql params. Inl (Error ''disk I/O error'')),
      close_reply = (\<lambda>h c. Inr ()),
      now_reply = (\<lambda>h. 1700000000000)\<rparr>"

text \<open>
  A store that fails the one statement without parameters that follows a version check,
  which is the migration batch.
\<close>

definition batch_fails_env :: env where
  "batch_fails_env =
     \<lparr>open_reply = (\<lambda>h name. Inr (Connection 0)),
      execute_reply = (\<lambda>h c sql params.
        if h \<noteq> [] \<and> last h = Execute c selectVersionSql (Some [Str ''001_initial'']) \<and> params = None
        then Inl (Error ''table exams: syntax error'')
        else Inr no_rows),
      close_reply = (\<lambda>h c. Inr ()),
      now_reply = (\<lambda>h. 1700000000000)\<rparr>"

text \<open>The double of the tests, with a release that throws.\<close>

definition release_fails_env :: env where
  "release_fails_env =
     \<lparr>open_reply = (\<lambda>h name. Inr (Connection 0)),
      execute_reply = (\<lambda>h c sql params. Inr no_rows),
      close_reply = (\<lambda>h c. Inl (Error ''unable to close due to unfinalized statements'')),
      now_reply = (\<lambda>h. 1700000000000)\<rparr>"

text \<open>The rows an answer carries, whichever form they come in; none if it has no rows.\<close>

fun rows_list :: "rows \<Rightarrow> row list" where
  "rows_list (RowArray rs) = rs"
| "rows_list (RowSet rs) = rs"

fun answer_rows :: "query_result \<Rightarrow> row list" where
  "answer_rows NoResult = []"
| "answer_rows (QueryResult None) = []"
| "answer_rows (QueryResult (Some rs)) = rows_list rs"

text \<open>A manager that holds an open connection.\<close>

definition opened :: state where
  "opened = \<lparr>db = Some (Connection 0), trace = [Open dbName]\<rparr>"

text \<open>
  A store with the catalogue \<open>cat\<close>, on which the migration was applied before: the
  version check finds its row, and the catalogue query is answered from \<open>cat\<close>.
\<close>

definition engine_env :: "catalogue \<Rightarrow> env" where
  "engine_env cat =
     \<lparr>open_reply = (\<lambda>h name. Inr (Connection 0)),
      execute_reply = (\<lambda>h c sql params.
        if sql = allTablesSql \<and> params = None then Inr (catalogue_answer cat)
        else if sql = selectVersionSql
        then Inr (QueryResult (Some (RowSet [[(''version'', Str ''001_initial'')]])))
        else Inr (QueryResult (Some (RowSet [])))),
      close_reply = (\<lambda>h c. Inr ()),
      now_reply = (\<lambda>h. 1700000000000)\<rparr>"

text \<open>
  The catalogue of a store after the migration, with its tables and the indexes the
  migration names, analysed once (\<^verbatim>\<open>sqlite_stat1\<close> is the engine's), and in which a
  collaborator has created the table \<^verbatim>\<open>sqlite3_cache\<close> through the connection.
\<close>

definition sample_catalogue :: catalogue where
  "sample_catalogue =
     [(''table'', ''migrations''),
      (''table'', ''exams''),
      (''table'', ''topics''),
      (''table'', ''questions''),
      (''table'', ''exhibits''),
      (''table'', ''question_exhibits''),
      (''table'', ''attempts''),
      (''table'', ''attempt_items''),
      (''table'', ''progress''),
      (''table'', ''user_preferences''),
      (''table'', ''content_packs''),
      (''index'', ''idx_questions_exam_topic''),
      (''index'', ''idx_questions_difficulty''),
      (''index'', ''idx_questions_type''),
      (''index'', ''idx_attempts_exam_completed''),
      (''index'', ''idx_attempt_items_question''),
      (''index'', ''idx_progress_exam_accuracy''),
      (''index'', ''idx_progress_last_practiced''),
      (''table'', ''sqlite_stat1''),
      (''table'', ''sqlite3_cache'')]"

section \<open>Properties\<close>

subsection \<open>Auxiliary facts\<close>

text \<open>No operation on the store touches the handle.\<close>

lemma execute_db: "db (snd (execute E c sql params s)) = db s"
  by (simp add: execute_def)

lemma runMigration_db: "db (snd (runMigration E version migration s)) = db s"
  by (simp add: runMigration_def execute_def date_now_def split: option.splits sum.splits)

lemma run_each_db: "db (snd (run_each E ms s)) = db s"
proof (induction ms arbitrary: s)
  case Nil
  show ?case by simp
next
  case (Cons m ms)
  obtain version migration where m: "m = (version, migration)"
    by (cases m)
  obtain r s1 where step: "runMigration E version migration s = (r, s1)"
    by (cases "runMigration E version migration s")
  have "db s1 = db s"
    using runMigration_db [of E version migration s] step by simp
  with Cons.IH [of s1] m step show ?case
    by (cases r) simp_all
qed

lemma runMigrations_db: "db (snd (runMigrations E s)) = db s"
  by (simp add: runMigrations_def execute_def run_each_db split: option.splits sum.splits)

lemma tableExists_db: "db (snd (tableExists E tableName s)) = db s"
  by (simp add: tableExists_def execute_def split: option.splits sum.splits)

lemma getAllTables_db: "db (snd (getAllTables E s)) = db s"
  by (simp add: getAllTables_def execute_def
      split: option.splits sum.splits query_result.splits rows.splits)

lemma loadFixtures_db: "db (snd (loadFixtures E s)) = db s"
  by (simp add: loadFixtures_def execute_def date_now_def split: option.splits sum.splits)

lemma getConnection_db: "db (snd (getConnection s)) = db s"
  by (simp add: getConnection_def split: option.splits)

text \<open>A call of \<^verbatim>\<open>initialize\<close> that returns normally leaves a live connection.\<close>

lemma initialize_success_live:
  assumes "initialize E s0 = (Inr (), s)"
  shows "\<exists>c. db s = Some c"
proof (cases "db s0")
  case (Some c)
  with assms show ?thesis by (auto simp: initialize_def)
next
  case None
  show ?thesis
  proof (cases "open_reply E (trace s0) dbName")
    case (Inl e)
    with None assms show ?thesis by (simp add: initialize_def open_store_def)
  next
    case (Inr c)
    let ?s1 = "s0\<lparr>trace := trace s0 @ [Open dbName], db := Some c\<rparr>"
    show ?thesis
    proof (cases "execute_reply E (trace ?s1) c ''PRAGMA foreign_keys = ON'' None")
      case (Inl e)
      with None Inr assms show ?thesis
        by (simp add: initialize_def open_store_def execute_def)
    next
      case r: (Inr x)
      let ?s2 = "?s1\<lparr>trace := trace ?s1 @ [Execute c ''PRAGMA foreign_keys = ON'' None]\<rparr>"
      from None Inr r assms have "runMigrations E ?s2 = (Inr (), s)"
        by (simp add: initialize_def open_store_def execute_def)
      then have "db s = db ?s2"
        using runMigrations_db [of E ?s2] by simp
      then show ?thesis by simp
    qed
  qed
qed

text \<open>If the store cannot be opened, the handle stays null.\<close>

lemma initialize_open_fails:
  assumes "db s = None" and "open_reply E (trace s) dbName = Inl e"
  shows "initialize E s = (Inl e, s\<lparr>trace := trace s @ [Open dbName]\<rparr>)"
  using assms by (simp add: initialize_def open_store_def)

text \<open>
  Once the store has been opened, the handle holds the connection when \<^verbatim>\<open>initialize\<close>
  ends, whether it returns or throws.
\<close>

lemma initialize_opened_keeps_handle:
  assumes "db s = None" and "open_reply E (trace s) dbName = Inr c"
  shows "db (snd (initialize E s)) = Some c"
proof -
  let ?s1 = "s\<lparr>trace := trace s @ [Open dbName], db := Some c\<rparr>"
  let ?s2 = "?s1\<lparr>trace := trace ?s1 @ [Execute c ''PRAGMA foreign_keys = ON'' None]\<rparr>"
  show ?thesis
  proof (cases "execute_reply E (trace ?s1) c ''PRAGMA foreign_keys = ON'' None")
    case (Inl e)
    with assms show ?thesis
      by (simp add: initialize_def open_store_def execute_def)
  next
    case (Inr x)
    with assms have "initialize E s = runMigrations E ?s2"
      by (simp add: initialize_def open_store_def execute_def)
    then show ?thesis
      using runMigrations_db [of E ?s2] by simp
  qed
qed

text \<open>
  So, for every store that opens: when \<^verbatim>\<open>initialize\<close> throws, whatever the step that
  failed, the next call returns normally and does nothing.
\<close>

lemma failed_initialize_blocks_retry:
  assumes "db s = None" and "open_reply E (trace s) dbName = Inr c"
    and "initialize E s = (Inl e, s1)"
  shows "initialize E' s1 = (Inr (), s1)"
proof -
  have "db s1 = Some c"
    using initialize_opened_keeps_handle [OF assms(1,2)] assms(3) by simp
  then show ?thesis
    by (simp add: initialize_def)
qed

text \<open>Once the handle is null, any number of \<^verbatim>\<open>close\<close> calls changes nothing.\<close>

lemma close_calls_closed: "db s = None \<Longrightarrow> close_calls E n s = (replicate n (Inr ()), s)"
  by (induction n) (simp_all add: close_def)

text \<open>The index loop collects the names of the rows from \<open>i\<close> on, in order.\<close>

lemma collect_names_eq:
  "collect_names rs i tables = tables @ map (\<lambda>row. column row ''name'') (drop i rs)"
proof (induction rs i tables rule: collect_names.induct)
  case (1 rs i tables)
  show ?case
  proof (cases "i < length rs")
    case True
    then have "drop i rs = rs ! i # drop (Suc i) rs"
      by (simp add: Cons_nth_drop_Suc)
    with True "1.IH" show ?thesis
      by (simp add: collect_names.simps [of rs i tables])
  next
    case False
    then show ?thesis
      by (simp add: collect_names.simps [of rs i tables])
  qed
qed

text \<open>
  When the version check finds no row and
  the batch throws, \<^verbatim>\<open>runMigration\<close> throws the same error and the batch is its last
  operation.
\<close>

lemma runMigration_batch_throws:
  assumes "db s = Some c"
    and "execute_reply E (trace s) c selectVersionSql (Some [Str version]) = Inr result"
    and "\<not> has_rows result"
    and "execute_reply E (trace s @ [Execute c selectVersionSql (Some [Str version])])
           c sql None = Inl e"
  shows "runMigration E version sql s
     = (Inl e, s\<lparr>trace := trace s @ [Execute c selectVersionSql (Some [Str version]),
                                     Execute c sql None]\<rparr>)"
  using assms by (simp add: runMigration_def execute_def)

text \<open>
  When the tracking table already has the row of \<^verbatim>\<open>001_initial\<close>, \<^verbatim>\<open>initialize\<close>
  runs the pragma, the creation of the tracking table and the version check, and nothing
  else.
\<close>

lemma initialize_applied_trace:
  "initialize applied_env fresh
     = (Inr (),
        \<lparr>db = Some (Connection 0),
         trace = [Open dbName,
                  Execute (Connection 0) ''PRAGMA foreign_keys = ON'' None,
                  Execute (Connection 0) createMigrationsSql None,
                  Execute (Connection 0) selectVersionSql (Some [Str ''001_initial''])]\<rparr>)"
  by (simp add: initialize_def open_store_def execute_def runMigrations_def migrations_def
      runMigration_def applied_env_def fresh_def no_rows_def)

text \<open>When the release throws, \<^verbatim>\<open>close\<close> throws with it and the handle stays set.\<close>

lemma close_release_throws:
  assumes "db s = Some c" and "close_reply E (trace s) c = Inl e"
  shows "close E s = (Inl e, s\<lparr>trace := trace s @ [Close c]\<rparr>)"
  using assms by (simp add: close_def close_store_def)

text \<open>
  \<^verbatim>\<open>getAllTables\<close> sends the catalogue query and returns the \<^verbatim>\<open>name\<close> of each row of
  the answer, in the order of the answer.
\<close>

lemma getAllTables_relays_answer:
  assumes "db s = Some c"
    and "execute_reply E (trace s) c allTablesSql None = Inr answer"
  shows "getAllTables E s
     = (Inr (map (\<lambda>row. column row ''name'') (answer_rows answer)),
        s\<lparr>trace := trace s @ [Execute c allTablesSql None]\<rparr>)"
proof (cases answer)
  case NoResult
  with assms show ?thesis
    by (simp add: getAllTables_def execute_def)
next
  case (QueryResult member)
  show ?thesis
  proof (cases member)
    case None
    with QueryResult assms show ?thesis
      by (simp add: getAllTables_def execute_def)
  next
    case (Some rs)
    with QueryResult assms show ?thesis
      by (cases rs) (simp_all add: getAllTables_def execute_def collect_names_eq)
  qed
qed

text \<open>On a store that answers the catalogue query from its catalogue.\<close>

lemma getAllTables_on_engine:
  assumes "db s = Some c"
    and "execute_reply E (trace s) c allTablesSql None = Inr (catalogue_answer cat)"
  shows "getAllTables E s
     = (Inr (map Str (table_names cat)), s\<lparr>trace := trace s @ [Execute c allTablesSql None]\<rparr>)"
  using getAllTables_relays_answer [OF assms]
  by (simp add: catalogue_answer_def column_def comp_def)

text \<open>
  What the query selects, for every catalogue: the names come in ascending order, each
  is the name of a table of the store, and none is a name of the engine's.
\<close>

lemma sorted_table_names: "sorted (table_names cat)"
  by (simp add: table_names_def)

lemma table_names_tables: "n \<in> set (table_names cat) \<Longrightarrow> (''table'', n) \<in> set cat"
  by (auto simp: table_names_def)

lemma like_percent: "like ''%'' s"
  by (induction s) simp_all

lemma system_name_like:
  assumes "system_name n"
  shows "like ''sqlite_%'' n"
proof -
  from assms have "take 7 n = ''sqlite_''"
    by (simp add: system_name_def)
  then obtain rest where "n = ''sqlite_'' @ rest"
    by (metis append_take_drop_id)
  then show ?thesis
    using like_percent [of rest] by (cases rest) (simp_all add: lower_def)
qed

lemma table_names_not_system: "n \<in> set (table_names cat) \<Longrightarrow> \<not> system_name n"
  using system_name_like by (auto simp: table_names_def)

text \<open>
  The query keeps every table whose name the pattern does not match. The pattern matches
  more than the names of the engine: \<^verbatim>\<open>_\<close> stands for any character, so it matches every
  name made of \<^verbatim>\<open>sqlite\<close>, in either case, and at least one more character.
\<close>

lemma table_names_complete:
  assumes "(''table'', n) \<in> set cat" and "\<not> like ''sqlite_%'' n"
  shows "n \<in> set (table_names cat)"
  using assms by (force simp: table_names_def)

lemma like_sqlite_any:
  "like ''sqlite_%'' (''sqlite'' @ x # rest)"
  using like_percent [of rest] by (cases rest) (simp_all add: lower_def)

subsection \<open>Claims\<close>

text \<open>
  C1. What \<^verbatim>\<open>initialize\<close> does when the store opens and the pragma then throws: the
  error reaches the caller, but the handle keeps the connection that was opened, and the
  next call of \<^verbatim>\<open>initialize\<close> returns normally at once, with no operation: it takes the
  manager for initialized and re-attempts nothing.
\<close>

theorem C1_failed_initialize_keeps_handle:
  "initialize failing_env fresh
     = (Inl (Error ''disk I/O error''),
        \<lparr>db = Some (Connection 0),
         trace = [Open dbName, Execute (Connection 0) ''PRAGMA foreign_keys = ON'' None]\<rparr>)
   \<and> initialize failing_env
        \<lparr>db = Some (Connection 0),
         trace = [Open dbName, Execute (Connection 0) ''PRAGMA foreign_keys = ON'' None]\<rparr>
     = (Inr (),
        \<lparr>db = Some (Connection 0),
         trace = [Open dbName, Execute (Connection 0) ''PRAGMA foreign_keys = ON'' None]\<rparr>)"
proof -
  let ?s1 = "\<lparr>db = Some (Connection 0),
    trace = [Open dbName, Execute (Connection 0) ''PRAGMA foreign_keys = ON'' None]\<rparr>"
  have failed: "initialize failing_env fresh = (Inl (Error ''disk I/O error''), ?s1)"
    by (simp add: initialize_def open_store_def execute_def failing_env_def fresh_def)
  have again: "initialize failing_env ?s1 = (Inr (), ?s1)"
    by (simp add: initialize_def)
  from failed again show ?thesis by simp
qed

text \<open>
  C2. \<^verbatim>\<open>runMigration(version, sql)\<close> on a live connection, when the version check
  returns. If the check finds a row for the version, the call returns normally and the
  check is the only operation: no migration text is executed and nothing is inserted. If
  it finds none, the call executes the whole text \<open>sql\<close> as the next operation and,
  when that returns, reads the clock and inserts the tracking row of the version with
  that timestamp; when the insertion returns, the call returns normally.
\<close>

theorem C2_runMigration_two_states:
  assumes live: "db s = Some c"
    and check: "execute_reply E (trace s) c selectVersionSql (Some [Str version]) = Inr result"
  shows
    "let check = Execute c selectVersionSql (Some [Str version]);
         batch = Execute c sql None;
         now = now_reply E (trace s @ [check, batch]);
         insertion = Execute c insertVersionSql (Some [Str version, Num (of_int now)])
     in if has_rows result
        then runMigration E version sql s = (Inr (), s\<lparr>trace := trace s @ [check]\<rparr>)
        else (\<forall>r1 r2.
          execute_reply E (trace s @ [check]) c sql None = Inr r1
          \<and> execute_reply E (trace s @ [check, batch, DateNow]) c insertVersionSql
                (Some [Str version, Num (of_int now)]) = Inr r2
          \<longrightarrow> runMigration E version sql s
                = (Inr (), s\<lparr>trace := trace s @ [check, batch, DateNow, insertion]\<rparr>))"
  using live check by (simp add: runMigration_def execute_def date_now_def Let_def)

theorem C2_runMigration_two_states_witness:
  "db opened = Some (Connection 0)
   \<and> runMigration applied_env ''001_initial'' getMigration001 opened
       = (Inr (), opened\<lparr>trace := [Open dbName,
            Execute (Connection 0) selectVersionSql (Some [Str ''001_initial''])]\<rparr>)
   \<and> runMigration double_env ''001_initial'' getMigration001 opened
       = (Inr (), opened\<lparr>trace := [Open dbName,
            Execute (Connection 0) selectVersionSql (Some [Str ''001_initial'']),
            Execute (Connection 0) getMigration001 None,
            DateNow,
            Execute (Connection 0) insertVersionSql
              (Some [Str ''001_initial'', Num 1700000000000])]\<rparr>)"
proof -
  have live: "db opened = Some (Connection 0)"
    by (simp add: opened_def)
  have found: "execute_reply applied_env (trace opened) (Connection 0) selectVersionSql
      (Some [Str ''001_initial''])
      = Inr (QueryResult (Some (RowArray [[(''version'', Str ''001_initial'')]])))"
    by (simp add: applied_env_def)
  have absent: "execute_reply double_env (trace opened) (Connection 0) selectVersionSql
      (Some [Str ''001_initial'']) = Inr no_rows"
    by (simp add: double_env_def)
  have applied: "runMigration applied_env ''001_initial'' getMigration001 opened
      = (Inr (), opened\<lparr>trace := [Open dbName,
            Execute (Connection 0) selectVersionSql (Some [Str ''001_initial''])]\<rparr>)"
    using C2_runMigration_two_states [OF live found, of getMigration001]
    by (simp add: Let_def opened_def)
  have pending: "runMigration double_env ''001_initial'' getMigration001 opened
      = (Inr (), opened\<lparr>trace := [Open dbName,
            Execute (Connection 0) selectVersionSql (Some [Str ''001_initial'']),
            Execute (Connection 0) getMigration001 None,
            DateNow,
            Execute (Connection 0) insertVersionSql
              (Some [Str ''001_initial'', Num 1700000000000])]\<rparr>)"
    using C2_runMigration_two_states [OF live absent, of getMigration001]
    by (simp add: Let_def opened_def no_rows_def double_env_def)
  from live applied pending show ?thesis by simp
qed

text \<open>
  C3. What \<^verbatim>\<open>initialize\<close> does when the batch of migration \<^verbatim>\<open>001_initial\<close> throws: the
  error reaches the caller and the trace ends with the batch, so no tracking row is
  inserted; but the handle keeps the connection, and the next call of \<^verbatim>\<open>initialize\<close>
  returns normally with no operation: the version is not tried again.
\<close>

theorem C3_failed_batch_not_retried:
  "initialize batch_fails_env fresh
     = (Inl (Error ''table exams: syntax error''),
        \<lparr>db = Some (Connection 0),
         trace = [Open dbName,
                  Execute (Connection 0) ''PRAGMA foreign_keys = ON'' None,
                  Execute (Connection 0) createMigrationsSql None,
                  Execute (Connection 0) selectVersionSql (Some [Str ''001_initial'']),
                  Execute (Connection 0) getMigration001 None]\<rparr>)
   \<and> initialize batch_fails_env (snd (initialize batch_fails_env fresh))
     = (Inr (), snd (initialize batch_fails_env fresh))"
proof -
  have first: "initialize batch_fails_env fresh
     = (Inl (Error ''table exams: syntax error''),
        \<lparr>db = Some (Connection 0),
         trace = [Open dbName,
                  Execute (Connection 0) ''PRAGMA foreign_keys = ON'' None,
                  Execute (Connection 0) createMigrationsSql None,
                  Execute (Connection 0) selectVersionSql (Some [Str ''001_initial'']),
                  Execute (Connection 0) getMigration001 None]\<rparr>)"
    by (simp add: initialize_def open_store_def execute_def runMigrations_def migrations_def
        runMigration_def batch_fails_env_def fresh_def no_rows_def)
  then show ?thesis
    by (simp add: initialize_def)
qed

text \<open>
  C4. \<^verbatim>\<open>initialize\<close> is idempotent: when a live connection already exists, a call of
  \<^verbatim>\<open>initialize\<close> returns at once, normally, and leaves the manager and the trace as they
  were: no open, no pragma, no statement of the migrations.
\<close>

theorem C4_initialize_idempotent:
  assumes "db s = Some c"
  shows "initialize E s = (Inr (), s)"
  using assms by (simp add: initialize_def)

theorem C4_initialize_idempotent_witness:
  "db (snd (initialize double_env fresh)) = Some (Connection 0)
   \<and> initialize double_env (snd (initialize double_env fresh))
       = (Inr (), snd (initialize double_env fresh))"
proof -
  have live: "db (snd (initialize double_env fresh)) = Some (Connection 0)"
    using runMigrations_db [of double_env]
    by (simp add: initialize_def open_store_def execute_def double_env_def fresh_def)
  from live C4_initialize_idempotent [OF live, of double_env] show ?thesis by simp
qed

text \<open>
  C5. When no live connection exists, \<^verbatim>\<open>getConnection()\<close>, \<^verbatim>\<open>tableExists(name)\<close> and
  \<^verbatim>\<open>getAllTables()\<close> each throw an error instead of returning a value, and issue no
  operation; the error of \<^verbatim>\<open>getConnection()\<close> carries the message
  \<^verbatim>\<open>Database not initialized. Call initialize() first.\<close> (the other two carry
  \<^verbatim>\<open>Database connection not available\<close>).
\<close>

theorem C5_not_initialized_errors:
  assumes "db s = None"
  shows "getConnection s = (Inl (Error ''Database not initialized. Call initialize() first.''), s)
    \<and> tableExists E tableName s = (Inl (Error ''Database connection not available''), s)
    \<and> getAllTables E s = (Inl (Error ''Database connection not available''), s)"
  using assms
  by (simp add: getConnection_def tableExists_def getAllTables_def not_available_def)

theorem C5_not_initialized_errors_witness:
  "db fresh = None
   \<and> getConnection fresh = (Inl (Error ''Database not initialized. Call initialize() first.''), fresh)
   \<and> tableExists double_env ''exams'' fresh = (Inl (Error ''Database connection not available''), fresh)
   \<and> getAllTables double_env fresh = (Inl (Error ''Database connection not available''), fresh)"
proof -
  have closed: "db fresh = None"
    by (simp add: fresh_def)
  from closed C5_not_initialized_errors [OF closed, of double_env "''exams''"]
  show ?thesis by simp
qed

text \<open>
  C6, as stated, fails when the release throws: after a call of \<^verbatim>\<open>initialize\<close> that
  returned normally, two calls of \<^verbatim>\<open>close\<close> in a row invoke the release twice, both
  throw, and the handle still holds the connection.
\<close>

theorem C6_release_throws_released_twice:
  "fst (initialize release_fails_env fresh) = Inr ()
   \<and> db (snd (initialize release_fails_env fresh)) = Some (Connection 0)
   \<and> close_calls release_fails_env 2 (snd (initialize release_fails_env fresh))
       = ([Inl (Error ''unable to close due to unfinalized statements''),
           Inl (Error ''unable to close due to unfinalized statements'')],
          (snd (initialize release_fails_env fresh))
            \<lparr>trace := trace (snd (initialize release_fails_env fresh))
               @ [Close (Connection 0), Close (Connection 0)]\<rparr>)"
proof -
  let ?s = "snd (initialize release_fails_env fresh)"
  let ?e = "Error ''unable to close due to unfinalized statements''"
  have ok: "fst (initialize release_fails_env fresh) = Inr ()"
    by (simp add: initialize_def open_store_def execute_def runMigrations_def migrations_def
        runMigration_def date_now_def release_fails_env_def fresh_def no_rows_def)
  have live: "db ?s = Some (Connection 0)"
    using runMigrations_db [of release_fails_env]
    by (simp add: initialize_def open_store_def execute_def release_fails_env_def fresh_def)
  let ?s1 = "?s\<lparr>trace := trace ?s @ [Close (Connection 0)]\<rparr>"
  have first: "close release_fails_env ?s = (Inl ?e, ?s1)"
    by (rule close_release_throws [OF live]) (simp add: release_fails_env_def)
  have live1: "db ?s1 = Some (Connection 0)"
    using live by simp
  have second: "close release_fails_env ?s1
      = (Inl ?e, ?s1\<lparr>trace := trace ?s1 @ [Close (Connection 0)]\<rparr>)"
    by (rule close_release_throws [OF live1]) (simp add: release_fails_env_def)
  have "close_calls release_fails_env 2 ?s
      = ([Inl ?e, Inl ?e], ?s\<lparr>trace := trace ?s @ [Close (Connection 0), Close (Connection 0)]\<rparr>)"
    using first second by (simp add: numeral_2_eq_2)
  with ok live show ?thesis by simp
qed

text \<open>
  C6, amended. After a call of \<^verbatim>\<open>initialize\<close> that returned normally, if the release
  returns normally when \<^verbatim>\<open>close\<close> first invokes it, then any \<open>n \<ge> 1\<close> calls of
  \<^verbatim>\<open>close\<close> in a row release the connection exactly once: the first call appends the one
  release to the trace and sets the handle to null, and every call returns normally.
\<close>

theorem C6_close_releases_once:
  assumes "initialize E s0 = (Inr (), s)"
    and "db s = Some c"
    and "close_reply E (trace s) c = Inr ()"
    and "1 \<le> n"
  shows "close E s = (Inr (), s\<lparr>db := None, trace := trace s @ [Close c]\<rparr>)
    \<and> close_calls E n s
        = (replicate n (Inr ()), s\<lparr>db := None, trace := trace s @ [Close c]\<rparr>)"
proof -
  let ?s1 = "s\<lparr>db := None, trace := trace s @ [Close c]\<rparr>"
  have first: "close E s = (Inr (), ?s1)"
    using assms(2,3) by (simp add: close_def close_store_def)
  from assms(4) obtain m where n: "n = Suc m"
    by (cases n) simp_all
  have "close_calls E m ?s1 = (replicate m (Inr ()), ?s1)"
    by (rule close_calls_closed) simp
  with first n have "close_calls E n s = (replicate n (Inr ()), ?s1)"
    by simp
  with first show ?thesis by simp
qed

theorem C6_close_releases_once_witness:
  "initialize double_env fresh = (Inr (), snd (initialize double_env fresh))
   \<and> db (snd (initialize double_env fresh)) = Some (Connection 0)
   \<and> close_reply double_env (trace (snd (initialize double_env fresh))) (Connection 0) = Inr ()
   \<and> (1::nat) \<le> 3
   \<and> close_calls double_env 3 (snd (initialize double_env fresh))
        = ([Inr (), Inr (), Inr ()],
           (snd (initialize double_env fresh))
             \<lparr>db := None,
              trace := trace (snd (initialize double_env fresh)) @ [Close (Connection 0)]\<rparr>)"
proof -
  let ?s = "snd (initialize double_env fresh)"
  have ok: "fst (initialize double_env fresh) = Inr ()"
    by (simp add: initialize_def open_store_def execute_def runMigrations_def migrations_def
        runMigration_def date_now_def double_env_def fresh_def no_rows_def)
  then have run: "initialize double_env fresh = (Inr (), ?s)"
    by (metis prod.collapse)
  have live: "db ?s = Some (Connection 0)"
    using runMigrations_db [of double_env]
    by (simp add: initialize_def open_store_def execute_def double_env_def fresh_def)
  have release: "close_reply double_env (trace ?s) (Connection 0) = Inr ()"
    by (simp add: double_env_def)
  have n: "(1::nat) \<le> 3" by simp
  have three: "replicate 3 (Inr ()) = [Inr (), Inr (), Inr () :: error + unit]"
    by (simp add: numeral_3_eq_3)
  from C6_close_releases_once [OF run live release n]
  have "close_calls double_env 3 ?s
      = (replicate 3 (Inr ()), ?s\<lparr>db := None, trace := trace ?s @ [Close (Connection 0)]\<rparr>)"
    by (rule conjunct2)
  with three have "close_calls double_env 3 ?s
      = ([Inr (), Inr (), Inr ()], ?s\<lparr>db := None, trace := trace ?s @ [Close (Connection 0)]\<rparr>)"
    by (simp only:)
  with run live release n show ?thesis by blast
qed

text \<open>
  C7. What \<^verbatim>\<open>getAllTables()\<close> returns, after \<^verbatim>\<open>initialize\<close>, on a store whose catalogue
  holds the tables of the migration, the engine's \<^verbatim>\<open>sqlite_stat1\<close> and a table
  \<^verbatim>\<open>sqlite3_cache\<close>: the names of the migration's tables in ascending order, without the
  engine's table, and without \<^verbatim>\<open>sqlite3_cache\<close>, which is a table of the store and whose
  name does not start with the prefix of the engine's names.
\<close>

theorem C7_getAllTables_omits_user_table:
  "fst (initialize (engine_env sample_catalogue) fresh) = Inr ()
   \<and> fst (getAllTables (engine_env sample_catalogue)
            (snd (initialize (engine_env sample_catalogue) fresh)))
       = Inr (map Str [''attempt_items'', ''attempts'', ''content_packs'', ''exams'',
            ''exhibits'', ''migrations'', ''progress'', ''question_exhibits'', ''questions'',
            ''topics'', ''user_preferences''])
   \<and> (''table'', ''sqlite3_cache'') \<in> set sample_catalogue
   \<and> \<not> system_name ''sqlite3_cache''"
proof -
  let ?E = "engine_env sample_catalogue"
  have ok: "fst (initialize ?E fresh) = Inr ()"
    by (simp add: initialize_def open_store_def execute_def runMigrations_def migrations_def
        runMigration_def engine_env_def fresh_def)
  have live: "db (snd (initialize ?E fresh)) = Some (Connection 0)"
    using runMigrations_db [of ?E]
    by (simp add: initialize_def open_store_def execute_def engine_env_def fresh_def)
  have answer: "execute_reply ?E (trace (snd (initialize ?E fresh))) (Connection 0)
      allTablesSql None = Inr (catalogue_answer sample_catalogue)"
    by (simp add: engine_env_def)
  have selected: "table_names sample_catalogue
      = [''attempt_items'', ''attempts'', ''content_packs'', ''exams'',
         ''exhibits'', ''migrations'', ''progress'', ''question_exhibits'', ''questions'',
         ''topics'', ''user_preferences'']"
    by code_simp
  have names: "fst (getAllTables ?E (snd (initialize ?E fresh)))
      = Inr (map Str (table_names sample_catalogue))"
    using getAllTables_on_engine [OF live answer] by simp
  have present: "(''table'', ''sqlite3_cache'') \<in> set sample_catalogue"
    by (simp add: sample_catalogue_def)
  have user: "\<not> system_name ''sqlite3_cache''"
    by (simp add: system_name_def)
  from ok names selected present user show ?thesis by simp
qed

text \<open>
  C8. A call of \<^verbatim>\<open>loadFixtures()\<close> that returns normally has read the clock and sent the
  store the four insertions, in order. The sixth parameter of the one that inserts the
  question is the serialised content, and parsing it gives back the literal: the stem,
  the four choices A to D of which only A is correct, the list of correct answers with
  the one element A, and the shuffle flag set.
\<close>

theorem C8_fixture_content_round_trip:
  assumes "db s = Some c" and "loadFixtures E s = (Inr (), s')"
  shows
    "let now = now_reply E (trace s) in
     trace s' = trace s @
       [DateNow,
        Execute c insertExamSql (Some (examParams now)),
        Execute c insertTopicSql (Some topicParams),
        Execute c insertQuestionSql (Some (questionParams now)),
        Execute c insertContentPackSql (Some (contentPackParams now))]
     \<and> questionParams now ! 5 = Str questionContent
     \<and> parse questionContent = Some (JObj [
        (''stem'', JStr ''Which activity is part of Business Analysis Planning?''),
        (''choices'', JArr [
           JObj [(''id'', JStr ''A''),
                 (''text'', JStr ''Define stakeholder roles and responsibilities''),
                 (''isCorrect'', JBool True)],
           JObj [(''id'', JStr ''B''),
                 (''text'', JStr ''Elicit requirements from stakeholders''),
                 (''isCorrect'', JBool False)],
           JObj [(''id'', JStr ''C''),
                 (''text'', JStr ''Test the final solution''),
                 (''isCorrect'', JBool False)],
           JObj [(''id'', JStr ''D''),
                 (''text'', JStr ''Implement approved changes''),
                 (''isCorrect'', JBool False)]]),
        (''correct'', JArr [JStr ''A'']),
        (''shuffleChoices'', JBool True)])"
proof -
  let ?now = "now_reply E (trace s)"
  have sent: "trace s' = trace s @
       [DateNow,
        Execute c insertExamSql (Some (examParams ?now)),
        Execute c insertTopicSql (Some topicParams),
        Execute c insertQuestionSql (Some (questionParams ?now)),
        Execute c insertContentPackSql (Some (contentPackParams ?now))]"
    using assms
    by (auto simp: loadFixtures_def execute_def date_now_def split: sum.splits)
  have sixth: "questionParams ?now ! 5 = Str questionContent"
    by (simp add: questionParams_def)
  have "parse questionContent = Some (JObj [
        (''stem'', JStr ''Which activity is part of Business Analysis Planning?''),
        (''choices'', JArr [
           JObj [(''id'', JStr ''A''),
                 (''text'', JStr ''Define stakeholder roles and responsibilities''),
                 (''isCorrect'', JBool True)],
           JObj [(''id'', JStr ''B''),
                 (''text'', JStr ''Elicit requirements from stakeholders''),
                 (''isCorrect'', JBool False)],
           JObj [(''id'', JStr ''C''),
                 (''text'', JStr ''Test the final solution''),
                 (''isCorrect'', JBool False)],
           JObj [(''id'', JStr ''D''),
                 (''text'', JStr ''Implement approved changes''),
                 (''isCorrect'', JBool False)]]),
        (''correct'', JArr [JStr ''A'']),
        (''shuffleChoices'', JBool True)])"
    by code_simp
  with sent sixth show ?thesis by (simp add: Let_def)
qed

theorem C8_fixture_content_round_trip_witness:
  "db opened = Some (Connection 0)
   \<and> loadFixtures double_env opened = (Inr (), snd (loadFixtures double_env opened))
   \<and> trace (snd (loadFixtures double_env opened)) =
       [Open dbName,
        DateNow,
        Execute (Connection 0) insertExamSql (Some (examParams 1700000000000)),
        Execute (Connection 0) insertTopicSql (Some topicParams),
        Execute (Connection 0) insertQuestionSql (Some (questionParams 1700000000000)),
        Execute (Connection 0) insertContentPackSql (Some (contentPackParams 1700000000000))]
   \<and> questionParams 1700000000000 ! 5 = Str questionContent
   \<and> parse questionContent = Some questionContentValue"
proof -
  have live: "db opened = Some (Connection 0)"
    by (simp add: opened_def)
  have "fst (loadFixtures double_env opened) = Inr ()"
    by (simp add: loadFixtures_def execute_def date_now_def double_env_def opened_def)
  then have run: "loadFixtures double_env opened = (Inr (), snd (loadFixtures double_env opened))"
    by (metis prod.collapse)
  have now: "now_reply double_env (trace opened) = 1700000000000"
    by (simp add: double_env_def)
  from C8_fixture_content_round_trip [OF live run] now live run show ?thesis
    by (simp add: Let_def opened_def questionContentValue_def choice_def)
qed

text \<open>
  C9. \<^verbatim>\<open>getConnection\<close>, \<^verbatim>\<open>tableExists\<close>, \<^verbatim>\<open>getAllTables\<close>, \<^verbatim>\<open>loadFixtures\<close>,
  \<^verbatim>\<open>runMigrations\<close> and \<^verbatim>\<open>runMigration\<close> leave the connection handle as it was,
  whatever the store answers and whether they return or throw.
\<close>

theorem C9_handle_frame:
  "db (snd (getConnection s)) = db s
   \<and> db (snd (tableExists E tableName s)) = db s
   \<and> db (snd (getAllTables E s)) = db s
   \<and> db (snd (loadFixtures E s)) = db s
   \<and> db (snd (runMigrations E s)) = db s
   \<and> db (snd (runMigration E version migration s)) = db s"
  by (simp add: getConnection_db tableExists_db getAllTables_db loadFixtures_db
      runMigrations_db runMigration_db)

text \<open>
  C10. Called when no live connection exists, \<^verbatim>\<open>loadFixtures()\<close> throws an error with
  the message \<^verbatim>\<open>Database connection not available\<close> and performs no operation: the
  trace, the clock included, is untouched.
\<close>

theorem C10_loadFixtures_not_initialized:
  assumes "db s = None"
  shows "loadFixtures E s = (Inl (Error ''Database connection not available''), s)"
  using assms by (simp add: loadFixtures_def not_available_def)

theorem C10_loadFixtures_not_initialized_witness:
  "db fresh = None
   \<and> loadFixtures double_env fresh = (Inl (Error ''Database connection not available''), fresh)"
proof -
  have closed: "db fresh = None"
    by (simp add: fresh_def)
  from closed C10_loadFixtures_not_initialized [OF closed, of double_env]
  show ?thesis by simp
qed
end
